theory Spec2Isabelle
  imports Main
begin

text \<open>
  The sentiment analyzer of the repository: \<open>SentimentTaskManager\<close> with its
  \<open>process_task\<close> and \<open>_extract_sentiment_data\<close>
  (\<open>agents/sentiment_analyzer/task_manager.py\<close>), \<open>send_message\<close> of the sentiment
  dashboard (\<open>apps/a2a_sentiment_app.py\<close>) and the port \<open>main\<close> starts the server on
  (\<open>agents/sentiment_analyzer/__main__.py\<close>). The model comes first, then the notions
  the properties are stated with, then the properties.
\<close>

section \<open>Python strings\<close>

text \<open>
  A Python \<open>str\<close> is a sequence of Unicode code points, and \<open>len\<close>, indexing, \<open>re\<close> and
  the string methods all work on code points. A string is therefore a list of code
  points (natural numbers); \<open>str\<close> turns an ASCII literal of the source into that list.
\<close>

type_synonym pystr = "nat list"

definition str :: "string \<Rightarrow> pystr" where
  "str s = map of_char s"

text \<open>
  \<open>str.isspace\<close> / the characters removed by \<open>str.strip()\<close> with no argument: the
  Unicode white space characters.
\<close>

definition whitespace :: "nat list" where
  "whitespace = [9, 10, 11, 12, 13, 28, 29, 30, 31, 32, 133, 160, 5760,
     8192, 8193, 8194, 8195, 8196, 8197, 8198, 8199, 8200, 8201, 8202,
     8232, 8233, 8239, 8287, 12288]"

definition isspace :: "nat \<Rightarrow> bool" where
  "isspace c = (c \<in> set whitespace)"

definition strip :: "pystr \<Rightarrow> pystr" where
  "strip s = rev (dropWhile isspace (rev (dropWhile isspace s)))"

text \<open>
  The decimal digits \<open>\d\<close> matches in a \<open>str\<close> pattern (no \<open>re.ASCII\<close>): Unicode category
  Nd. Every block is ten consecutive code points; \<open>digit_zeros\<close> lists the zero of
  each block (Unicode 14.0).
\<close>

definition digit_zeros :: "nat list" where
  "digit_zeros = [48, 1632, 1776, 1984, 2406, 2534, 2662, 2790, 2918, 3046, 3174, 3302,
     3430, 3558, 3664, 3792, 3872, 4160, 4240, 6112, 6160, 6470, 6608, 6784, 6800, 6992,
     7088, 7232, 7248, 42528, 43216, 43264, 43472, 43504, 43600, 44016, 65296, 66720,
     68912, 69734, 69872, 69942, 70096, 70384, 70736, 70864, 71248, 71360, 71472, 71904,
     72016, 72784, 73040, 73120, 92768, 92864, 93008, 120782, 120792, 120802, 120812,
     120822, 123200, 123632, 125264, 130032]"

definition isdigit :: "nat \<Rightarrow> bool" where
  "isdigit c = list_ex (\<lambda>z. z \<le> c \<and> c < z + 10) digit_zeros"

text \<open>
  Case: the patterns are ASCII, so upper and lower case are needed for ASCII letters,
  and for the four further code points that \<open>re.IGNORECASE\<close> lets stand for an ASCII
  letter: U+017F (long s, for \<open>s\<close>), U+0130 and U+0131 (dotted capital I and dotless i,
  for \<open>i\<close>), and U+212A (Kelvin sign, for \<open>k\<close>).
\<close>

definition ascii_lower :: "nat \<Rightarrow> nat" where
  "ascii_lower c = (if 65 \<le> c \<and> c \<le> 90 then c + 32 else c)"

definition ascii_upper :: "nat \<Rightarrow> nat" where
  "ascii_upper c = (if 97 \<le> c \<and> c \<le> 122 then c - 32 else c)"

text \<open>
  \<open>ignorecase_eq p c\<close>: the text character \<open>c\<close> matches the ASCII pattern character
  \<open>p\<close> under \<open>re.IGNORECASE\<close>.
\<close>

definition ignorecase_eq :: "nat \<Rightarrow> nat \<Rightarrow> bool" where
  "ignorecase_eq p c =
     (c = ascii_lower p \<or> c = ascii_upper p
      \<or> (ascii_lower p = 115 \<and> c = 383)
      \<or> (ascii_lower p = 105 \<and> (c = 304 \<or> c = 305))
      \<or> (ascii_lower p = 107 \<and> c = 8490))"

text \<open>
  \<open>str.lower()\<close> on the code points a capture of the sentiment pattern can hold: an
  ASCII capital becomes its small letter, U+0130 becomes \<open>i\<close> followed by U+0307, and
  the small letters, U+0131 and U+017F stay as they are.
\<close>

definition lower_char :: "nat \<Rightarrow> pystr" where
  "lower_char c = (if c = 304 then [105, 775] else [ascii_lower c])"

definition lower :: "pystr \<Rightarrow> pystr" where
  "lower s = concat (map lower_char s)"

definition endswith :: "pystr \<Rightarrow> pystr \<Rightarrow> bool" where
  "endswith s suffix = (length suffix \<le> length s \<and> drop (length s - length suffix) s = suffix)"

text \<open>\<open>s.split(sep)\<close> for a separator of one character.\<close>

fun split :: "nat \<Rightarrow> pystr \<Rightarrow> pystr list" where
  "split sep [] = [[]]"
| "split sep (c # cs) =
     (if c = sep then [] # split sep cs
      else (case split sep cs of
              [] \<Rightarrow> [[c]]
            | w # ws \<Rightarrow> (c # w) # ws))"

text \<open>\<open>s.split(sep, 1)\<close>: at most one split, at the first separator.\<close>

definition split1 :: "nat \<Rightarrow> pystr \<Rightarrow> pystr list" where
  "split1 sep s =
     (if sep \<in> set s
      then [takeWhile (\<lambda>c. c \<noteq> sep) s, tl (dropWhile (\<lambda>c. c \<noteq> sep) s)]
      else [s])"

section \<open>Regular expressions\<close>

text \<open>
  The fragment of Python's \<open>re\<close> that the task manager's four patterns use, with the
  backtracking order of the library: \<open>matches\<close> lists every way a pattern can match at
  the start of the remaining text, the way \<open>re\<close> would try them, so the first element is
  the match \<open>re\<close> reports. A state is the remaining text and the groups captured so far.
\<close>

datatype flag = IGNORECASE | DOTALL

datatype regex =
    Empty
  | Lit nat
  | Digit
  | Dot
  | Eos
  | Seq regex regex
  | Alt regex regex
  | Star regex
  | LazyStar regex
  | Group nat regex
  | Lookahead regex

type_synonym groups = "nat \<rightharpoonup> pystr"

type_synonym mstate = "pystr \<times> groups"

definition lit_ok :: "flag list \<Rightarrow> nat \<Rightarrow> nat \<Rightarrow> bool" where
  "lit_ok fl p c = (if IGNORECASE \<in> set fl then ignorecase_eq p c else c = p)"

definition dot_ok :: "flag list \<Rightarrow> nat \<Rightarrow> bool" where
  "dot_ok fl c = (DOTALL \<in> set fl \<or> c \<noteq> 10)"

text \<open>One character of the text, if it passes the test.\<close>

definition one_char :: "(nat \<Rightarrow> bool) \<Rightarrow> mstate \<Rightarrow> mstate list" where
  "one_char ok st =
     (case fst st of
        [] \<Rightarrow> []
      | c # cs \<Rightarrow> if ok c then [(cs, snd st)] else [])"

text \<open>
  \<open>$\<close> without \<open>re.MULTILINE\<close>: the end of the text, or just before a newline that
  ends the text.
\<close>

definition at_end :: "pystr \<Rightarrow> bool" where
  "at_end s = (s = [] \<or> s = [10])"

text \<open>
  A repetition goes round again only after an iteration that consumed text (as the
  library's own guard against empty iterations does), which is also why it ends; in
  the four patterns every iteration takes one character. \<open>Star\<close> is greedy (longer
  first), \<open>LazyStar\<close> is \<open>*?\<close> (shorter first). A \<open>Group\<close> records the text its
  pattern took; a \<open>Lookahead\<close> takes no text.
\<close>

function matches :: "flag list \<Rightarrow> regex \<Rightarrow> mstate \<Rightarrow> mstate list" where
  "matches fl Empty st = [st]"
| "matches fl (Lit p) st = one_char (lit_ok fl p) st"
| "matches fl Digit st = one_char isdigit st"
| "matches fl Dot st = one_char (dot_ok fl) st"
| "matches fl Eos st = (if at_end (fst st) then [st] else [])"
| "matches fl (Seq r1 r2) st = concat (map (\<lambda>st'. matches fl r2 st') (matches fl r1 st))"
| "matches fl (Alt r1 r2) st = matches fl r1 st @ matches fl r2 st"
| "matches fl (Star r) st =
     concat (map (\<lambda>st'. if length (fst st') < length (fst st)
                         then matches fl (Star r) st' else [])
                 (matches fl r st)) @ [st]"
| "matches fl (LazyStar r) st =
     st # concat (map (\<lambda>st'. if length (fst st') < length (fst st)
                              then matches fl (LazyStar r) st' else [])
                      (matches fl r st))"
| "matches fl (Group n r) st =
     map (\<lambda>st'. (fst st',
                  (snd st')(n \<mapsto> take (length (fst st) - length (fst st')) (fst st))))
         (matches fl r st)"
| "matches fl (Lookahead r) st =
     (case matches fl r st of
        [] \<Rightarrow> []
      | st' # _ \<Rightarrow> [(fst st, snd st')])"
  by pat_completeness auto
termination
  by (relation "measures [\<lambda>(fl, r, st). size r, \<lambda>(fl, r, st). length (fst st)]") auto

declare matches.simps [simp del]

text \<open>\<open>r+\<close> is \<open>r\<close> followed by \<open>r*\<close>.\<close>

definition Plus :: "regex \<Rightarrow> regex" where
  "Plus r = Seq r (Star r)"

text \<open>A literal string of the pattern: its characters in sequence.\<close>

fun Lits :: "pystr \<Rightarrow> regex" where
  "Lits [] = Empty"
| "Lits (c # cs) = Seq (Lit c) (Lits cs)"

text \<open>
  \<open>re.search\<close>: the first match at the leftmost position that has one; the result is
  the match's groups (\<open>None\<close> when no position matches).
\<close>

fun search :: "regex \<Rightarrow> pystr \<Rightarrow> flag list \<Rightarrow> groups option" where
  "search r [] fl =
     (case matches fl r ([], Map.empty) of
        [] \<Rightarrow> None
      | st # _ \<Rightarrow> Some (snd st))"
| "search r (c # cs) fl =
     (case matches fl r (c # cs, Map.empty) of
        [] \<Rightarrow> search r cs fl
      | st # _ \<Rightarrow> Some (snd st))"

section \<open>The sentiment task manager\<close>

subsection \<open>Exceptions\<close>

text \<open>
  An exception is known by its class name (\<open>type(e).__name__\<close>), its text (\<open>str(e)\<close>) and
  whether its class derives from \<open>Exception\<close>, which is what \<open>except Exception\<close> asks.
  \<open>KeyboardInterrupt\<close>, \<open>SystemExit\<close>, \<open>GeneratorExit\<close> and \<open>asyncio.CancelledError\<close>
  derive from \<open>BaseException\<close> only.
\<close>

record exn =
  class_name :: pystr
  exn_str :: pystr
  is_Exception :: bool

definition AttributeError :: "exn" where
  "AttributeError = \<lparr>class_name = str ''AttributeError'',
     exn_str = str ''NoneType object has no attribute'', is_Exception = True\<rparr>"

definition IndexError :: "exn" where
  "IndexError = \<lparr>class_name = str ''IndexError'',
     exn_str = str ''list index out of range'', is_Exception = True\<rparr>"

definition and_then :: "'e + 'a \<Rightarrow> ('a \<Rightarrow> 'e + 'b) \<Rightarrow> 'e + 'b" where
  "and_then x f = (case x of Inl e \<Rightarrow> Inl e | Inr a \<Rightarrow> f a)"

subsection \<open>Extraction of the sentiment record\<close>

record sentiment_data =
  sentiment :: pystr
  confidence :: pystr
  key_markers :: "pystr list"
  analysis :: pystr

text \<open>The defaults \<open>_extract_sentiment_data\<close> starts from.\<close>

definition default_result :: "sentiment_data" where
  "default_result = \<lparr>sentiment = str ''unknown'', confidence = str ''0%'',
     key_markers = [], analysis = str ''No analysis available''\<rparr>"

text \<open>\<^verbatim>\<open>r"Overall Sentiment: *(positive|negative|neutral)"\<close>\<close>

definition sentiment_re :: "regex" where
  "sentiment_re =
     Seq (Lits (str ''Overall Sentiment:''))
       (Seq (Star (Lit 32))
         (Group 1 (Alt (Lits (str ''positive''))
                    (Alt (Lits (str ''negative'')) (Lits (str ''neutral''))))))"

text \<open>\<^verbatim>\<open>r"Confidence: *(\d+%|\d+)"\<close>\<close>

definition confidence_re :: "regex" where
  "confidence_re =
     Seq (Lits (str ''Confidence:''))
       (Seq (Star (Lit 32))
         (Group 1 (Alt (Seq (Plus Digit) (Lit 37)) (Plus Digit))))"

text \<open>\<^verbatim>\<open>r"Key Markers: *(.*?)(?=\n\n|\n-|$)"\<close>\<close>

definition markers_re :: "regex" where
  "markers_re =
     Seq (Lits (str ''Key Markers:''))
       (Seq (Star (Lit 32))
         (Seq (Group 1 (LazyStar Dot))
           (Lookahead (Alt (Lits [10, 10]) (Alt (Lits [10, 45]) Eos)))))"

text \<open>\<^verbatim>\<open>r"Analysis: *(.*?)(?=\n\n|$)"\<close>\<close>

definition analysis_re :: "regex" where
  "analysis_re =
     Seq (Lits (str ''Analysis:''))
       (Seq (Star (Lit 32))
         (Seq (Group 1 (LazyStar Dot))
           (Lookahead (Alt (Lits [10, 10]) Eos))))"

text \<open>
  \<open>match.group(1)\<close> is \<open>None\<close> when the group took no part in the match; the method call
  on it then raises \<open>AttributeError\<close>.
\<close>

definition group1 :: "groups \<Rightarrow> exn + pystr" where
  "group1 m = (case m 1 of None \<Rightarrow> Inl AttributeError | Some g \<Rightarrow> Inr g)"

definition extract_sentiment :: "pystr \<Rightarrow> sentiment_data \<Rightarrow> exn + sentiment_data" where
  "extract_sentiment text result =
     (case search sentiment_re text [IGNORECASE] of
        None \<Rightarrow> Inr result
      | Some m \<Rightarrow> and_then (group1 m) (\<lambda>g. Inr (result\<lparr>sentiment := lower g\<rparr>)))"

definition extract_confidence :: "pystr \<Rightarrow> sentiment_data \<Rightarrow> exn + sentiment_data" where
  "extract_confidence text result =
     (case search confidence_re text [IGNORECASE] of
        None \<Rightarrow> Inr result
      | Some m \<Rightarrow> and_then (group1 m) (\<lambda>g.
          Inr (result\<lparr>confidence := (if endswith g (str ''%'') then g else g @ str ''%'')\<rparr>)))"

text \<open>
  The loop over the lines of a bullet list. \<open>line.split("-", 1)[1]\<close> raises
  \<open>IndexError\<close> when the split has one element only.
\<close>

fun bullet_markers :: "pystr list \<Rightarrow> pystr list \<Rightarrow> exn + pystr list" where
  "bullet_markers [] markers = Inr markers"
| "bullet_markers (line # lines) markers =
     (if 45 \<in> set line
      then (case split1 45 line of
              _ # after # _ \<Rightarrow>
                (let marker = strip after
                 in if marker \<noteq> [] then bullet_markers lines (markers @ [marker])
                    else bullet_markers lines markers)
            | _ \<Rightarrow> Inl IndexError)
      else bullet_markers lines markers)"

definition parse_markers :: "pystr \<Rightarrow> exn + pystr list" where
  "parse_markers markers_text =
     (if 45 \<in> set markers_text then bullet_markers (split 10 markers_text) []
      else if 44 \<in> set markers_text
        then Inr (map strip (filter (\<lambda>m. strip m \<noteq> []) (split 44 markers_text)))
      else if markers_text \<noteq> [] then Inr [markers_text]
      else Inr [])"

definition extract_markers :: "pystr \<Rightarrow> sentiment_data \<Rightarrow> exn + sentiment_data" where
  "extract_markers text result =
     (case search markers_re text [IGNORECASE, DOTALL] of
        None \<Rightarrow> Inr result
      | Some m \<Rightarrow> and_then (group1 m) (\<lambda>g.
          and_then (parse_markers (strip g)) (\<lambda>markers.
            Inr (result\<lparr>key_markers := markers\<rparr>))))"

definition extract_analysis :: "pystr \<Rightarrow> sentiment_data \<Rightarrow> exn + sentiment_data" where
  "extract_analysis text result =
     (case search analysis_re text [IGNORECASE, DOTALL] of
        None \<Rightarrow> Inr result
      | Some m \<Rightarrow> and_then (group1 m) (\<lambda>g. Inr (result\<lparr>analysis := strip g\<rparr>)))"

text \<open>\<open>SentimentTaskManager._extract_sentiment_data\<close>: \<open>Inl\<close> is an exception raised.\<close>

definition extract_sentiment_data :: "pystr \<Rightarrow> exn + sentiment_data" where
  "extract_sentiment_data text =
     and_then (extract_sentiment text default_result) (\<lambda>r1.
     and_then (extract_confidence text r1) (\<lambda>r2.
     and_then (extract_markers text r2) (\<lambda>r3.
     extract_analysis text r3)))"

subsection \<open>Events of the runner\<close>

text \<open>
  What \<open>process_task\<close> reads of an event: \<open>event.is_final_response()\<close>, and
  \<open>event.content\<close> with its \<open>role\<close> and \<open>parts\<close>, each of which may be \<open>None\<close>.
\<close>

record part =
  part_text :: "pystr option"

record content =
  role :: "pystr option"
  parts :: "part list option"

record event =
  is_final_response :: bool
  event_content :: "content option"

text \<open>
  What iterating \<open>runner.run_async(...)\<close> does when the iteration comes to an end: it
  yields events one by one and then either stops or raises.
\<close>

datatype events = Stop | Yield event events | Raise exn

text \<open>
  The text of an event that passes both tests of the loop: a final response whose
  content is there with role \<open>"model"\<close>, whose \<open>parts\<close> is a non-empty list and whose
  first part has a non-empty text.
\<close>

definition final_text :: "event \<Rightarrow> pystr option" where
  "final_text ev =
     (if is_final_response ev
      then (case event_content ev of
              None \<Rightarrow> None
            | Some c \<Rightarrow>
                if role c = Some (str ''model'')
                then (case parts c of
                        None \<Rightarrow> None
                      | Some [] \<Rightarrow> None
                      | Some (p # _) \<Rightarrow>
                          (case part_text p of
                             None \<Rightarrow> None
                           | Some t \<Rightarrow> if t \<noteq> [] then Some t else None))
                else None)
      else None)"

text \<open>
  The \<open>async for\<close> loop: the state is \<open>final_message\<close>, \<open>raw_events\<close> and
  \<open>sentiment_data\<close>. \<open>raw_events\<close> keeps each event (in the source, its \<open>model_dump\<close>).
\<close>

type_synonym loop_state = "pystr \<times> event list \<times> sentiment_data"

fun consume :: "events \<Rightarrow> loop_state \<Rightarrow> exn + loop_state" where
  "consume Stop acc = Inr acc"
| "consume (Raise e) acc = Inl e"
| "consume (Yield ev rest) (final_message, raw_events, sd) =
     (case final_text ev of
        None \<Rightarrow> consume rest (final_message, raw_events @ [ev], sd)
      | Some t \<Rightarrow>
          and_then (extract_sentiment_data t)
            (\<lambda>sd'. consume rest (t, raw_events @ [ev], sd')))"

subsection \<open>process\_task\<close>

text \<open>
  The response is a dictionary with the keys \<open>message\<close>, \<open>status\<close> and \<open>data\<close>;
  \<open>data\<close> is a dictionary again, with the entries the source gives it.
\<close>

datatype pyval = Str pystr | Sentiment sentiment_data | Events "event list"

record response =
  message :: pystr
  status :: pystr
  data :: "(string \<times> pyval) list"

text \<open>
  The session service keeps its sessions under \<open>(app_name, user_id, session_id)\<close>; a
  session holds a state bag, empty when the session is created. What the runner does
  to a session's state is not part of the task manager.
\<close>

type_synonym session_key = "pystr \<times> pystr \<times> pystr"

record task_manager =
  sessions :: "session_key \<rightharpoonup> (pystr \<times> pystr) list"

text \<open>
  What the task manager takes from outside: the identifier \<open>uuid.uuid4()\<close> returns next,
  and the runner, which is given the user, the session and the message.
\<close>

record world =
  uuid4 :: pystr
  run_async :: "pystr \<Rightarrow> pystr \<Rightarrow> pystr \<Rightarrow> events"

definition A2A_APP_NAME :: "pystr" where
  "A2A_APP_NAME = str ''sentiment_analyzer_a2a_app''"

text \<open>\<open>context.get("user_id", "default_a2a_user")\<close>\<close>

definition user_id_of :: "(string \<rightharpoonup> pystr) \<Rightarrow> pystr" where
  "user_id_of ctx =
     (case ctx ''user_id'' of None \<Rightarrow> str ''default_a2a_user'' | Some u \<Rightarrow> u)"

text \<open>
  \<open>if not session_id: session_id = str(uuid.uuid4())\<close>: \<open>None\<close> and the empty string
  are both false.
\<close>

definition session_id_of :: "world \<Rightarrow> pystr option \<Rightarrow> pystr" where
  "session_id_of w session_id =
     (case session_id of
        None \<Rightarrow> uuid4 w
      | Some s \<Rightarrow> if s = [] then uuid4 w else s)"

definition get_or_create_session :: "task_manager \<Rightarrow> session_key \<Rightarrow> task_manager" where
  "get_or_create_session tm k =
     (case sessions tm k of
        Some _ \<Rightarrow> tm
      | None \<Rightarrow> tm\<lparr>sessions := (sessions tm)(k \<mapsto> [])\<rparr>)"

text \<open>\<open>raw_events[-3:]\<close>\<close>

definition last3 :: "'a list \<Rightarrow> 'a list" where
  "last3 xs = drop (length xs - 3) xs"

text \<open>
  \<open>process_task\<close> returns the task manager afterwards and either the response
  (\<open>Inr\<close>) or the exception it lets through (\<open>Inl\<close>): \<open>except Exception\<close> handles the
  exceptions that derive from \<open>Exception\<close>.
\<close>

definition process_task ::
    "task_manager \<Rightarrow> world \<Rightarrow> pystr \<Rightarrow> (string \<rightharpoonup> pystr) \<Rightarrow> pystr option
     \<Rightarrow> (exn + response) \<times> task_manager" where
  "process_task tm w msg ctx session_id =
     (let user_id = user_id_of ctx;
          sid = session_id_of w session_id;
          tm' = get_or_create_session tm (A2A_APP_NAME, user_id, sid)
      in (case consume (run_async w user_id sid msg)
                 (str ''(No response generated)'', [], default_result) of
            Inr (final_message, raw_events, sd) \<Rightarrow>
              (Inr \<lparr>message = final_message, status = str ''success'',
                     data = [(''sentiment_analysis'', Sentiment sd),
                             (''raw_events'', Events (last3 raw_events))]\<rparr>, tm')
          | Inl e \<Rightarrow>
              if is_Exception e
              then (Inr \<lparr>message = str ''Error processing your request: '' @ exn_str e,
                          status = str ''error'',
                          data = [(''error_type'', Str (class_name e))]\<rparr>, tm')
              else (Inl e, tm')))"

section \<open>The sentiment dashboard: send\_message\<close>

text \<open>
  A decoded JSON value; an object lists its keys, each once. \<open>d.get(key, default)\<close>
  raises \<open>AttributeError\<close> on a value that is not a dictionary.
\<close>

datatype json =
    JNull
  | JBool bool
  | JNum int
  | JStr pystr
  | JList "json list"
  | JObj "(pystr \<times> json) list"

definition dict_get :: "json \<Rightarrow> pystr \<Rightarrow> json \<Rightarrow> exn + json" where
  "dict_get d key dflt =
     (case d of
        JObj kvs \<Rightarrow> (case map_of kvs key of None \<Rightarrow> Inr dflt | Some v \<Rightarrow> Inr v)
      | _ \<Rightarrow> Inl AttributeError)"

text \<open>
  How the HTTP exchange of the \<open>try\<close> block ends (\<open>requests.post\<close>,
  \<open>raise_for_status\<close>, \<open>response.json()\<close>): with the decoded body, with an exception of
  class \<open>requests.exceptions.RequestException\<close> (connection errors, timeouts, bad status
  codes), with a \<open>json.JSONDecodeError\<close> that is not one of those, or with any other
  exception. The first two carry \<open>str(e)\<close>.
\<close>

datatype http_result =
    Body json
  | RequestException pystr
  | JSONDecodeError pystr
  | OtherError exn

text \<open>
  \<open>st.session_state\<close> and the error banners shown with \<open>st.error\<close>. Each chat message
  is a dictionary.
\<close>

record app =
  ss_user_id :: pystr
  ss_session_id :: pystr
  ss_messages :: "json list"
  banners :: "pystr list"

definition chat :: "string \<Rightarrow> json \<Rightarrow> json" where
  "chat r c = JObj [(str ''role'', JStr (str r)), (str ''content'', c)]"

definition st_error :: "pystr \<Rightarrow> app \<Rightarrow> app" where
  "st_error text st = st\<lparr>banners := banners st @ [text]\<rparr>"

definition append_message :: "json \<Rightarrow> app \<Rightarrow> app" where
  "append_message m st = st\<lparr>ss_messages := ss_messages st @ [m]\<rparr>"

definition payload_of :: "app \<Rightarrow> pystr \<Rightarrow> json" where
  "payload_of st msg =
     JObj [(str ''message'', JStr msg),
           (str ''context'', JObj [(str ''user_id'', JStr (ss_user_id st))]),
           (str ''session_id'', JStr (ss_session_id st))]"

text \<open>The body of the \<open>try\<close> block after the exchange.\<close>

definition parse_response :: "json \<Rightarrow> exn + json" where
  "parse_response response_data =
     and_then (dict_get response_data (str ''message'') (JStr (str ''(No analysis received)'')))
       (\<lambda>assistant_message.
     and_then (dict_get response_data (str ''data'') (JObj []))
       (\<lambda>d.
     and_then (dict_get d (str ''sentiment_analysis'') (JObj []))
       (\<lambda>sentiment_data.
     Inr (JObj [(str ''role'', JStr (str ''assistant'')),
                (str ''content'', assistant_message),
                (str ''sentiment_data'', sentiment_data)]))))"

definition unexpected :: "exn \<Rightarrow> app \<Rightarrow> (exn + bool) \<times> app" where
  "unexpected e st =
     (if is_Exception e
      then (Inr False,
            append_message
              (chat ''assistant'' (JStr (str ''Error: An unexpected error occurred. '' @ exn_str e)))
              (st_error (str ''An unexpected error occurred: '' @ exn_str e) st))
      else (Inl e, st))"

text \<open>
  \<open>send_message\<close>: what it returns (\<open>Inl\<close>: an exception it lets through) and the
  application afterwards. \<open>post\<close> is the HTTP exchange.
\<close>

definition send_message ::
    "app \<Rightarrow> (json \<Rightarrow> http_result) \<Rightarrow> pystr \<Rightarrow> (exn + bool) \<times> app" where
  "send_message st post msg =
     (if ss_session_id st = []
      then (Inr False, st_error (str ''No active conversation. Start typing to begin.'') st)
      else
        (let st1 = append_message (chat ''user'' (JStr msg)) st
         in (case post (payload_of st msg) of
               Body response_data \<Rightarrow>
                 (case parse_response response_data of
                    Inr m \<Rightarrow> (Inr True, append_message m st1)
                  | Inl e \<Rightarrow> unexpected e st1)
             | RequestException e \<Rightarrow>
                 (Inr False,
                  append_message
                    (chat ''assistant'' (JStr (str ''Error: Could not connect to agent. '' @ e)))
                    (st_error (str ''Network or HTTP error: '' @ e) st1))
             | JSONDecodeError e \<Rightarrow>
                 (Inr False,
                  append_message
                    (chat ''assistant'' (JStr (str ''Error: Invalid response format from agent.'')))
                    (st_error (str ''Failed to decode JSON response from agent.'') st1))
             | OtherError e \<Rightarrow> unexpected e st1)))"

section \<open>The server's port\<close>

text \<open>
  \<open>int(s)\<close> for a string, base ten, as \<open>main\<close> calls it. White space around the number
  is dropped (the white space of \<open>str.strip\<close> but the four separators U+001C to
  U+001F, which \<open>int\<close> does not take), a sign may come first, single underscores may
  stand between digits, any decimal digit of Unicode counts with its value, and a
  number of more than 4300 digits is refused (the interpreter's default limit,
  \<open>sys.get_int_max_str_digits()\<close>). Whatever else the string holds, \<open>int\<close> raises
  \<open>ValueError\<close>.
\<close>

datatype py_error = ValueError

definition int_space :: "nat \<Rightarrow> bool" where
  "int_space c = (isspace c \<and> \<not> (28 \<le> c \<and> c \<le> 31))"

definition int_strip :: "pystr \<Rightarrow> pystr" where
  "int_strip s = rev (dropWhile int_space (rev (dropWhile int_space s)))"

text \<open>The value of a decimal digit: its distance from the zero of its block.\<close>

definition digit_value :: "nat \<Rightarrow> nat" where
  "digit_value c =
     (case filter (\<lambda>z. z \<le> c \<and> c < z + 10) digit_zeros of
        [] \<Rightarrow> 0
      | z # _ \<Rightarrow> c - z)"

fun digits_from :: "nat \<Rightarrow> pystr \<Rightarrow> nat option" where
  "digits_from acc [] = Some acc"
| "digits_from acc (c # cs) =
     (if isdigit c then digits_from (10 * acc + digit_value c) cs
      else if c = 95
        then (case cs of
                [] \<Rightarrow> None
              | d # ds \<Rightarrow>
                  if isdigit d then digits_from (10 * acc + digit_value d) ds else None)
      else None)"

definition int_max_str_digits :: "nat" where
  "int_max_str_digits = 4300"

definition digits :: "pystr \<Rightarrow> nat option" where
  "digits s =
     (case s of
        [] \<Rightarrow> None
      | c # cs \<Rightarrow>
          if isdigit c
          then (case digits_from (digit_value c) cs of
                  None \<Rightarrow> None
                | Some n \<Rightarrow>
                    if length (filter isdigit s) > int_max_str_digits then None else Some n)
          else None)"

definition int_of_str :: "pystr \<Rightarrow> py_error + int" where
  "int_of_str s =
     (case int_strip s of
        [] \<Rightarrow> Inl ValueError
      | c # cs \<Rightarrow>
          if c = 45 then (case digits cs of None \<Rightarrow> Inl ValueError | Some n \<Rightarrow> Inr (- int n))
          else if c = 43 then (case digits cs of None \<Rightarrow> Inl ValueError | Some n \<Rightarrow> Inr (int n))
          else (case digits (c # cs) of None \<Rightarrow> Inl ValueError | Some n \<Rightarrow> Inr (int n)))"

definition DEFAULT_PORT :: "int" where
  "DEFAULT_PORT = 8004"

record server_config =
  host :: pystr
  port :: int
  log_level :: pystr

text \<open>
  \<open>main\<close> up to the start of the server: the \<open>uvicorn.Config\<close> it serves with, or the
  exception \<open>int\<close> raised, which ends \<open>main\<close> before a server exists. \<open>environ\<close> is
  \<open>os.environ\<close>.
\<close>

definition main :: "(string \<rightharpoonup> pystr) \<Rightarrow> py_error + server_config" where
  "main environ =
     and_then
       (case environ ''SENTIMENT_ANALYZER_PORT'' of
          None \<Rightarrow> Inr DEFAULT_PORT
        | Some s \<Rightarrow> int_of_str s)
       (\<lambda>p. Inr \<lparr>host = str ''0.0.0.0'', port = p, log_level = str ''info''\<rparr>)"

section \<open>Notions the properties are stated with\<close>

text \<open>The events a stream yields, and the exception it ends with, if any.\<close>

fun yielded :: "events \<Rightarrow> event list" where
  "yielded Stop = []"
| "yielded (Raise e) = []"
| "yielded (Yield ev rest) = ev # yielded rest"

fun raised :: "events \<Rightarrow> exn option" where
  "raised Stop = None"
| "raised (Raise e) = Some e"
| "raised (Yield ev rest) = raised rest"

text \<open>\<open>occurs P s\<close>: \<open>P\<close> holds of the text from some position of \<open>s\<close> on.\<close>

fun occurs :: "(pystr \<Rightarrow> bool) \<Rightarrow> pystr \<Rightarrow> bool" where
  "occurs P [] = P []"
| "occurs P (c # cs) = (P (c # cs) \<or> occurs P cs)"


text \<open>\<open>starts_with_ci w s\<close>: \<open>s\<close> starts with the word \<open>w\<close>, case ignored.\<close>

fun starts_with_ci :: "pystr \<Rightarrow> pystr \<Rightarrow> bool" where
  "starts_with_ci [] s = True"
| "starts_with_ci (p # ps) [] = False"
| "starts_with_ci (p # ps) (c # cs) = (ignorecase_eq p c \<and> starts_with_ci ps cs)"

definition skip_spaces :: "pystr \<Rightarrow> pystr" where
  "skip_spaces s = dropWhile (\<lambda>c. c = 32) s"

text \<open>
  A sentiment line starts here: \<open>Overall Sentiment:\<close>, any number of spaces, and one
  of the three labels, case ignored.
\<close>

definition sentiment_line_at :: "pystr \<Rightarrow> bool" where
  "sentiment_line_at s =
     (starts_with_ci (str ''Overall Sentiment:'') s \<and>
      (let rest = skip_spaces (drop 18 s)
       in starts_with_ci (str ''positive'') rest
          \<or> starts_with_ci (str ''negative'') rest
          \<or> starts_with_ci (str ''neutral'') rest))"

text \<open>
  A confidence starts here: \<open>Confidence:\<close>, case ignored, any number of spaces, and
  a decimal digit.
\<close>

definition confidence_at :: "pystr \<Rightarrow> bool" where
  "confidence_at s =
     (starts_with_ci (str ''Confidence:'') s \<and>
      (case skip_spaces (drop 11 s) of
         [] \<Rightarrow> False
       | d # _ \<Rightarrow> isdigit d))"

text \<open>\<open>binds n r\<close>: every match of \<open>r\<close> sets group \<open>n\<close>.\<close>

fun binds :: "nat \<Rightarrow> regex \<Rightarrow> bool" where
  "binds n (Group k r) = (k = n \<or> binds n r)"
| "binds n (Seq r1 r2) = (binds n r1 \<or> binds n r2)"
| "binds n (Alt r1 r2) = (binds n r1 \<and> binds n r2)"
| "binds n (Lookahead r) = binds n r"
| "binds n r = False"

text \<open>The marker a bullet line holds: what follows its first \<open>-\<close>, stripped.\<close>

definition after_dash :: "pystr \<Rightarrow> pystr" where
  "after_dash line = strip (tl (dropWhile (\<lambda>c. c \<noteq> 45) line))"

text \<open>The number a string of the digits \<open>0\<close> to \<open>9\<close> writes.\<close>

definition decimal :: "pystr \<Rightarrow> nat" where
  "decimal s = foldl (\<lambda>a c. 10 * a + (c - 48)) 0 s"

definition ascii_digits :: "pystr \<Rightarrow> bool" where
  "ascii_digits s = (s \<noteq> [] \<and> list_all (\<lambda>c. 48 \<le> c \<and> c \<le> 57) s)"

text \<open>The two capturing groups of the sentiment and the confidence pattern.\<close>

definition labels :: "regex" where
  "labels = Group 1 (Alt (Lits (str ''positive''))
                      (Alt (Lits (str ''negative'')) (Lits (str ''neutral''))))"

definition number :: "regex" where
  "number = Group 1 (Alt (Seq (Plus Digit) (Lit 37)) (Plus Digit))"

text \<open>The labels the text starts with, case ignored, in the order of the pattern.\<close>

definition label_ends :: "pystr \<Rightarrow> pystr list" where
  "label_ends t =
     (if starts_with_ci (str ''positive'') t then [str ''positive''] else []) @
     (if starts_with_ci (str ''negative'') t then [str ''negative''] else []) @
     (if starts_with_ci (str ''neutral'') t then [str ''neutral''] else [])"

section \<open>Example inputs\<close>

text \<open>Texts of model replies.\<close>

definition reply_example :: "pystr" where
  "reply_example = str ''Overall Sentiment: positive\<newline>Confidence: 90%\<newline>Key Markers: happy, excited\<newline>Analysis: upbeat''"

definition bullets_example :: "pystr" where
  "bullets_example = str ''Key Markers:\<newline>- happy\<newline>- excited''"

definition long_s_example :: "pystr" where
  "long_s_example = str ''Overall Sentiment: po'' @ [383] @ str ''itive''"

definition confidence_only_example :: "pystr" where
  "confidence_only_example = str ''Confidence: 90%''"

definition no_sessions :: "task_manager" where
  "no_sessions = \<lparr>sessions = Map.empty\<rparr>"

definition RuntimeError :: "exn" where
  "RuntimeError = \<lparr>class_name = str ''RuntimeError'', exn_str = str ''model unavailable'',
     is_Exception = True\<rparr>"

definition KeyboardInterrupt :: "exn" where
  "KeyboardInterrupt = \<lparr>class_name = str ''KeyboardInterrupt'', exn_str = [],
     is_Exception = False\<rparr>"

text \<open>
  A runner that raises at once, one that yields nothing, and one that yields three
  events none of which is a final model response with a text: one that is not final, a
  final one of the user's role, and a final one of the model whose text is empty.
\<close>

definition raising_world :: "exn \<Rightarrow> world" where
  "raising_world e = \<lparr>uuid4 = str ''0f8fad5b-d9cb-469f-a165-70867728950e'',
     run_async = (\<lambda>user_id sid msg. Raise e)\<rparr>"


definition partial_event :: "event" where
  "partial_event = \<lparr>is_final_response = False,
     event_content = Some \<lparr>role = Some (str ''model''),
                             parts = Some [\<lparr>part_text = Some (str ''thinking'')\<rparr>]\<rparr>\<rparr>"

definition empty_final_event :: "event" where
  "empty_final_event = \<lparr>is_final_response = True,
     event_content = Some \<lparr>role = Some (str ''model''),
                             parts = Some [\<lparr>part_text = Some []\<rparr>]\<rparr>\<rparr>"

definition user_final_event :: "event" where
  "user_final_event = \<lparr>is_final_response = True,
     event_content = Some \<lparr>role = Some (str ''user''),
                             parts = Some [\<lparr>part_text = Some (str ''hello'')\<rparr>]\<rparr>\<rparr>"

definition no_reply_world :: "world" where
  "no_reply_world = \<lparr>uuid4 = str ''7c9e6679-7425-40de-944b-e07fc1f90ae7'',
     run_async = (\<lambda>user_id sid msg.
       Yield partial_event (Yield user_final_event (Yield empty_final_event Stop)))\<rparr>"

definition example_app :: "app" where
  "example_app = \<lparr>ss_user_id = str ''user-1'', ss_session_id = str ''conv-1'',
     ss_messages = [], banners = []\<rparr>"

section \<open>Properties of the extraction\<close>

text \<open>
  The equations of \<open>matches\<close> for the two repetitions unfold without end, so they are
  used one step at a time; the others are \<open>matches_base\<close>.
\<close>

lemmas matches_base = matches.simps(1-7) matches.simps(10-11)

subsection \<open>The groups of a match\<close>

lemma one_char_snd: "st' \<in> set (one_char ok st) \<Longrightarrow> snd st' = snd st"
  by (auto simp: one_char_def split: list.splits if_splits)

lemma matches_dom_mono:
  "st' \<in> set (matches fl r st) \<Longrightarrow> dom (snd st) \<subseteq> dom (snd st')"
proof (induction fl r st arbitrary: st' rule: matches.induct)
  case (6 fl r1 r2 st)
  then obtain st1 where a: "st1 \<in> set (matches fl r1 st)" and b: "st' \<in> set (matches fl r2 st1)"
    by (auto simp: matches_base)
  from "6.IH"(1)[OF a] "6.IH"(2)[OF a b] show ?case by blast
next
  case (7 fl r1 r2 st)
  from "7.prems" consider "st' \<in> set (matches fl r1 st)" | "st' \<in> set (matches fl r2 st)"
    by (auto simp: matches_base)
  then show ?case
  proof cases
    case 1
    from "7.IH"(1)[OF 1] show ?thesis .
  next
    case 2
    from "7.IH"(2)[OF 2] show ?thesis .
  qed
next
  case (8 fl r st)
  show ?case
  proof (cases "st' = st")
    case True then show ?thesis by simp
  next
    case False
    with "8.prems" obtain st1 where a: "st1 \<in> set (matches fl r st)"
      and l: "length (fst st1) < length (fst st)" and b: "st' \<in> set (matches fl (Star r) st1)"
      by (subst (asm) matches.simps) (auto split: if_splits)
    from "8.IH"(1)[OF a] "8.IH"(2)[OF a l b] show ?thesis by blast
  qed
next
  case (9 fl r st)
  show ?case
  proof (cases "st' = st")
    case True then show ?thesis by simp
  next
    case False
    with "9.prems" obtain st1 where a: "st1 \<in> set (matches fl r st)"
      and l: "length (fst st1) < length (fst st)" and b: "st' \<in> set (matches fl (LazyStar r) st1)"
      by (subst (asm) matches.simps) (auto split: if_splits)
    from "9.IH"(1)[OF a] "9.IH"(2)[OF a l b] show ?thesis by blast
  qed
next
  case (10 fl n r st)
  then obtain st1 where a: "st1 \<in> set (matches fl r st)"
    and b: "snd st' = (snd st1)(n \<mapsto> take (length (fst st) - length (fst st1)) (fst st))"
    by (auto simp: matches_base)
  from "10.IH"[OF a] b show ?case by auto
next
  case (11 fl r st)
  show ?case
  proof (cases "matches fl r st")
    case Nil
    with "11.prems" show ?thesis by (simp add: matches_base)
  next
    case (Cons st1 rest)
    with "11.prems" have b: "snd st' = snd st1" by (simp add: matches_base)
    from Cons have "st1 \<in> set (matches fl r st)" by simp
    from "11.IH"[OF this] b show ?thesis by simp
  qed
qed (auto simp: matches_base dest: one_char_snd split: if_splits)

lemma binds_dom:
  "binds n r \<Longrightarrow> st' \<in> set (matches fl r st) \<Longrightarrow> n \<in> dom (snd st')"
proof (induction r arbitrary: st st')
  case (Seq r1 r2)
  from Seq.prems(2) obtain st1 where a: "st1 \<in> set (matches fl r1 st)"
    and b: "st' \<in> set (matches fl r2 st1)" by (auto simp: matches_base)
  show ?case
  proof (cases "binds n r1")
    case True
    from Seq.IH(1)[OF True a] matches_dom_mono[OF b] show ?thesis by blast
  next
    case False
    with Seq.prems(1) have "binds n r2" by simp
    from Seq.IH(2)[OF this b] show ?thesis .
  qed
next
  case (Alt r1 r2)
  from Alt.prems(1) have b: "binds n r1" "binds n r2" by simp_all
  from Alt.prems(2) consider "st' \<in> set (matches fl r1 st)" | "st' \<in> set (matches fl r2 st)"
    by (auto simp: matches_base)
  then show ?case
  proof cases
    case 1
    from Alt.IH(1)[OF b(1) 1] show ?thesis .
  next
    case 2
    from Alt.IH(2)[OF b(2) 2] show ?thesis .
  qed
next
  case (Group k r)
  from Group.prems(2) obtain st1 where a: "st1 \<in> set (matches fl r st)"
    and b: "snd st' = (snd st1)(k \<mapsto> take (length (fst st) - length (fst st1)) (fst st))"
    by (auto simp: matches_base)
  show ?case
  proof (cases "k = n")
    case True with b show ?thesis by (auto simp: dom_def)
  next
    case False
    with Group.prems(1) have "binds n r" by simp
    from Group.IH[OF this a] b show ?thesis by auto
  qed
next
  case (Lookahead r)
  show ?case
  proof (cases "matches fl r st")
    case Nil
    with Lookahead.prems(2) show ?thesis by (simp add: matches_base)
  next
    case (Cons st1 rest)
    with Lookahead.prems(2) have b: "snd st' = snd st1" by (simp add: matches_base)
    from Cons have "st1 \<in> set (matches fl r st)" by simp
    from Lookahead.IH[OF _ this] Lookahead.prems(1) b show ?thesis by simp
  qed
qed simp_all

lemma search_Some:
  "search r input fl = Some m \<Longrightarrow> \<exists>s st'. st' \<in> set (matches fl r (s, Map.empty)) \<and> m = snd st'"
proof (induction input)
  case Nil
  then obtain st rest where a: "matches fl r ([], Map.empty) = st # rest" and b: "m = snd st"
    by (auto split: list.splits)
  then have "st \<in> set (matches fl r ([], Map.empty))" by simp
  with b show ?case by blast
next
  case (Cons c cs)
  show ?case
  proof (cases "matches fl r (c # cs, Map.empty)")
    case Nil
    with Cons show ?thesis by simp
  next
    case (Cons st rest)
    with Cons.prems have "m = snd st" by simp
    moreover from Cons have "st \<in> set (matches fl r (c # cs, Map.empty))" by simp
    ultimately show ?thesis by blast
  qed
qed

lemma search_group1:
  assumes "search r text fl = Some m" and "binds 1 r"
  shows "\<exists>g. group1 m = Inr g"
proof -
  from search_Some[OF assms(1)] obtain s st' where
    "st' \<in> set (matches fl r (s, Map.empty))" and "m = snd st'" by blast
  with binds_dom[OF assms(2)] have "1 \<in> dom m" by blast
  then show ?thesis by (auto simp: group1_def)
qed

lemma binds_sentiment_re: "binds 1 sentiment_re"
  by (simp add: sentiment_re_def)
lemma binds_confidence_re: "binds 1 confidence_re"
  by (simp add: confidence_re_def)
lemma binds_markers_re: "binds 1 markers_re"
  by (simp add: markers_re_def)
lemma binds_analysis_re: "binds 1 analysis_re"
  by (simp add: analysis_re_def)

lemma bullet_markers_total: "\<exists>ms. bullet_markers lines acc = Inr ms"
  by (induction lines arbitrary: acc) (auto simp: split1_def Let_def)

lemma parse_markers_total: "\<exists>ms. parse_markers t = Inr ms"
  using bullet_markers_total by (auto simp: parse_markers_def)

lemma extract_sentiment_total: "\<exists>r'. extract_sentiment text r = Inr r'"
  using search_group1[OF _ binds_sentiment_re]
  by (fastforce simp: extract_sentiment_def and_then_def split: option.splits)

lemma extract_confidence_total: "\<exists>r'. extract_confidence text r = Inr r'"
  using search_group1[OF _ binds_confidence_re]
  by (fastforce simp: extract_confidence_def and_then_def split: option.splits)

lemma extract_markers_total: "\<exists>r'. extract_markers text r = Inr r'"
proof (cases "search markers_re text [IGNORECASE, DOTALL]")
  case None
  then show ?thesis by (simp add: extract_markers_def)
next
  case (Some m)
  from search_group1[OF Some binds_markers_re] obtain g where g: "group1 m = Inr g" by blast
  from parse_markers_total obtain ms where "parse_markers (strip g) = Inr ms" by blast
  with Some g show ?thesis by (simp add: extract_markers_def and_then_def)
qed

lemma extract_analysis_total: "\<exists>r'. extract_analysis text r = Inr r'"
  using search_group1[OF _ binds_analysis_re]
  by (fastforce simp: extract_analysis_def and_then_def split: option.splits)

lemma extract_sentiment_data_total: "\<exists>r. extract_sentiment_data text = Inr r"
proof -
  obtain r1 where 1: "extract_sentiment text default_result = Inr r1"
    using extract_sentiment_total by blast
  obtain r2 where 2: "extract_confidence text r1 = Inr r2"
    using extract_confidence_total by blast
  obtain r3 where 3: "extract_markers text r2 = Inr r3"
    using extract_markers_total by blast
  obtain r4 where 4: "extract_analysis text r3 = Inr r4"
    using extract_analysis_total by blast
  from 1 2 3 4 show ?thesis by (simp add: extract_sentiment_data_def and_then_def)
qed

subsection \<open>Literals and spaces\<close>

lemma matches_Lits:
  assumes "IGNORECASE \<in> set fl"
  shows "matches fl (Lits w) (s, g) =
           (if starts_with_ci w s then [(drop (length w) s, g)] else [])"
proof (induction w arbitrary: s)
  case Nil
  show ?case by (simp add: matches_base)
next
  case (Cons p ps)
  show ?case
  proof (cases s)
    case Nil
    then show ?thesis by (simp add: matches_base one_char_def)
  next
    case (Cons c cs)
    with Cons.IH[of cs] assms show ?thesis
      by (simp add: matches_base one_char_def lit_ok_def)
  qed
qed

lemma lit_ok_space: "lit_ok fl 32 c = (c = 32)"
  by (simp add: lit_ok_def ignorecase_eq_def ascii_lower_def ascii_upper_def)

lemma matches_spaces_then:
  assumes "\<And>t g. matches fl r (32 # t, g) = []"
  shows "matches fl (Seq (Star (Lit 32)) r) (s, g) = matches fl r (skip_spaces s, g)"
proof (induction s)
  case Nil
  show ?case
    by (simp add: matches_base one_char_def skip_spaces_def matches.simps(8)[of fl "Lit 32"])
next
  case (Cons c cs)
  show ?case
  proof (cases "c = 32")
    case True
    have "matches fl (Star (Lit 32)) (c # cs, g)
            = matches fl (Star (Lit 32)) (cs, g) @ [(c # cs, g)]"
      using True
      by (subst matches.simps) (simp add: matches_base one_char_def lit_ok_space)
    then have "matches fl (Seq (Star (Lit 32)) r) (c # cs, g)
            = matches fl (Seq (Star (Lit 32)) r) (cs, g) @ matches fl r (c # cs, g)"
      by (simp add: matches_base)
    with Cons.IH True assms show ?thesis by (simp add: skip_spaces_def)
  next
    case False
    have "matches fl (Star (Lit 32)) (c # cs, g) = [(c # cs, g)]"
      using False
      by (subst matches.simps) (simp add: matches_base one_char_def lit_ok_space)
    with False show ?thesis by (simp add: matches_base skip_spaces_def)
  qed
qed

lemma spaces_then:
  assumes "\<And>t g. matches fl r (32 # t, g) = []"
  shows "concat (map (matches fl r) (matches fl (Star (Lit 32)) (s, g)))
           = matches fl r (skip_spaces s, g)"
  using matches_spaces_then[OF assms, of s g] by (simp add: matches_base)

subsection \<open>Searching\<close>

lemma search_None:
  assumes "\<not> occurs P input" and "\<And>s. \<not> P s \<Longrightarrow> matches fl r (s, Map.empty) = []"
  shows "search r input fl = None"
  using assms(1) by (induction input) (simp_all add: assms(2))

lemma search_not_None:
  assumes "occurs P input" and "\<And>s. P s \<Longrightarrow> matches fl r (s, Map.empty) \<noteq> []"
  shows "search r input fl \<noteq> None"
  using assms(1)
proof (induction input)
  case Nil
  then show ?case using assms(2)[of "[]"] by (auto split: list.splits)
next
  case (Cons c cs)
  then show ?case using assms(2)[of "c # cs"] by (auto split: list.splits)
qed



subsection \<open>The sentiment pattern\<close>

lemma take_length_drop: "take (length t - (length t - n)) t = take n t"
  by (cases "n \<le> length t") simp_all

lemma matches_labels:
  "matches [IGNORECASE] labels (t, g) =
     map (\<lambda>w. (drop (length w) t, g(1 \<mapsto> take (length w) t))) (label_ends t)"
  by (simp add: labels_def label_ends_def matches_base matches_Lits take_length_drop)

lemma labels_no_space: "matches [IGNORECASE] labels (32 # t, g) = []"
  by (simp add: matches_labels label_ends_def str_def ignorecase_eq_def ascii_lower_def
        ascii_upper_def)

lemma matches_sentiment_re:
  "matches [IGNORECASE] sentiment_re (s, g) =
     (if starts_with_ci (str ''Overall Sentiment:'') s
      then matches [IGNORECASE] labels (skip_spaces (drop 18 s), g) else [])"
proof -
  have "length (str ''Overall Sentiment:'') = 18" by (simp add: str_def)
  then show ?thesis
    unfolding sentiment_re_def labels_def[symmetric]
    by (simp add: matches_base[of "[IGNORECASE]"] matches_Lits
          spaces_then[OF labels_no_space])
qed

lemma sentiment_line_at_iff:
  "sentiment_line_at s \<longleftrightarrow> matches [IGNORECASE] sentiment_re (s, g) \<noteq> []"
  by (auto simp: sentiment_line_at_def matches_sentiment_re matches_labels label_ends_def Let_def)

lemma search_sentiment_None_iff:
  "search sentiment_re input [IGNORECASE] = None \<longleftrightarrow> \<not> occurs sentiment_line_at input"
  using search_None[of sentiment_line_at input "[IGNORECASE]" sentiment_re]
    search_not_None[of sentiment_line_at input "[IGNORECASE]" sentiment_re]
    sentiment_line_at_iff
  by blast

subsection \<open>The confidence pattern\<close>

lemma not_isdigit_32: "\<not> isdigit 32"
  by (simp add: isdigit_def digit_zeros_def)

lemma number_needs_digit:
  "t = [] \<or> \<not> isdigit (hd t) \<Longrightarrow> matches fl number (t, g) = []"
  by (cases t) (auto simp: number_def Plus_def matches_base one_char_def)

lemma star_digit_nonempty: "matches fl (Star Digit) st \<noteq> []"
  by (subst matches.simps) simp

lemma number_digit:
  "isdigit d \<Longrightarrow> matches fl number (d # t, g) \<noteq> []"
  by (simp add: number_def Plus_def matches_base one_char_def star_digit_nonempty)

lemma matches_confidence_re:
  "matches [IGNORECASE] confidence_re (s, g) =
     (if starts_with_ci (str ''Confidence:'') s
      then matches [IGNORECASE] number (skip_spaces (drop 11 s), g) else [])"
proof -
  have "length (str ''Confidence:'') = 11" by (simp add: str_def)
  moreover have "\<And>t g. matches [IGNORECASE] number (32 # t, g) = []"
    by (rule number_needs_digit) (simp add: not_isdigit_32)
  ultimately show ?thesis
    unfolding confidence_re_def number_def[symmetric]
    by (simp add: matches_base[of "[IGNORECASE]"] matches_Lits spaces_then)
qed

lemma confidence_at_iff:
  "confidence_at s \<longleftrightarrow> matches [IGNORECASE] confidence_re (s, g) \<noteq> []"
proof (cases "skip_spaces (drop 11 s)")
  case Nil
  then show ?thesis
    by (simp add: confidence_at_def matches_confidence_re number_needs_digit)
next
  case (Cons d t)
  then show ?thesis
    using number_digit[of d "[IGNORECASE]" t g] number_needs_digit[of "d # t" "[IGNORECASE]" g]
    by (auto simp: confidence_at_def matches_confidence_re)
qed

lemma search_confidence_None_iff:
  "search confidence_re input [IGNORECASE] = None \<longleftrightarrow> \<not> occurs confidence_at input"
  using search_None[of confidence_at input "[IGNORECASE]" confidence_re]
    search_not_None[of confidence_at input "[IGNORECASE]" confidence_re]
    confidence_at_iff
  by blast


subsection \<open>The fields of the record\<close>

lemma extract_sentiment_fields:
  "extract_sentiment input r = Inr r' \<Longrightarrow>
     confidence r' = confidence r \<and> key_markers r' = key_markers r \<and> analysis r' = analysis r"
  by (auto simp: extract_sentiment_def and_then_def group1_def split: option.splits)

lemma extract_confidence_fields:
  "extract_confidence input r = Inr r' \<Longrightarrow>
     sentiment r' = sentiment r \<and> key_markers r' = key_markers r \<and> analysis r' = analysis r"
  by (auto simp: extract_confidence_def and_then_def group1_def split: option.splits)

lemma extract_markers_fields:
  "extract_markers input r = Inr r' \<Longrightarrow>
     sentiment r' = sentiment r \<and> confidence r' = confidence r \<and> analysis r' = analysis r"
  by (auto simp: extract_markers_def and_then_def group1_def split: option.splits sum.splits)

lemma extract_analysis_fields:
  "extract_analysis input r = Inr r' \<Longrightarrow>
     sentiment r' = sentiment r \<and> confidence r' = confidence r \<and> key_markers r' = key_markers r"
  by (auto simp: extract_analysis_def and_then_def group1_def split: option.splits)

text \<open>
  The record \<open>_extract_sentiment_data\<close> returns, field by field, from the four steps.
\<close>

lemma extract_sentiment_data_steps:
  obtains r1 r2 r3 r4 where
    "extract_sentiment input default_result = Inr r1"
    "extract_confidence input r1 = Inr r2"
    "extract_markers input r2 = Inr r3"
    "extract_analysis input r3 = Inr r4"
    "extract_sentiment_data input = Inr r4"
    "sentiment r4 = sentiment r1"
    "confidence r4 = confidence r2"
    "key_markers r4 = key_markers r3"
proof -
  obtain r1 where 1: "extract_sentiment input default_result = Inr r1"
    using extract_sentiment_total by blast
  obtain r2 where 2: "extract_confidence input r1 = Inr r2"
    using extract_confidence_total by blast
  obtain r3 where 3: "extract_markers input r2 = Inr r3"
    using extract_markers_total by blast
  obtain r4 where 4: "extract_analysis input r3 = Inr r4"
    using extract_analysis_total by blast
  from 1 2 3 4 have 5: "extract_sentiment_data input = Inr r4"
    by (simp add: extract_sentiment_data_def and_then_def)
  from extract_confidence_fields[OF 2] extract_markers_fields[OF 3] extract_analysis_fields[OF 4]
  have "sentiment r4 = sentiment r1" "confidence r4 = confidence r2"
    "key_markers r4 = key_markers r3" by simp_all
  with 1 2 3 4 5 show ?thesis using that by blast
qed

text \<open>
  C3, as amended. For every text in which no sentiment line starts (\<open>Overall
  Sentiment:\<close>, spaces, one of the three labels, case ignored), the extraction returns
  a record whose sentiment is \<open>"unknown"\<close>. The confidence is found on its own: it is
  \<open>"0%"\<close> when the text has no \<open>Confidence:\<close> followed by a number either.
\<close>

theorem no_sentiment_line_unknown:
  assumes "\<not> occurs sentiment_line_at input"
  shows "\<exists>r. extract_sentiment_data input = Inr r
            \<and> sentiment r = str ''unknown''
            \<and> (\<not> occurs confidence_at input \<longrightarrow> confidence r = str ''0%'')"
proof -
  obtain r1 r2 r3 r4 where
    1: "extract_sentiment input default_result = Inr r1" and
    2: "extract_confidence input r1 = Inr r2" and
    5: "extract_sentiment_data input = Inr r4" and
    s: "sentiment r4 = sentiment r1" and
    c: "confidence r4 = confidence r2"
    by (rule extract_sentiment_data_steps)
  from assms have "search sentiment_re input [IGNORECASE] = None"
    by (simp add: search_sentiment_None_iff)
  with 1 have r1: "r1 = default_result" by (simp add: extract_sentiment_def)
  then have "sentiment r4 = str ''unknown''" using s by (simp add: default_result_def)
  moreover have "confidence r4 = str ''0%''" if "\<not> occurs confidence_at input"
  proof -
    from that have "search confidence_re input [IGNORECASE] = None"
      by (simp add: search_confidence_None_iff)
    with 2 r1 have "r2 = default_result" by (simp add: extract_confidence_def)
    with c show ?thesis by (simp add: default_result_def)
  qed
  ultimately show ?thesis using 5 by blast
qed

theorem no_sentiment_line_unknown_witness:
  "\<not> occurs sentiment_line_at (str ''What a day'')
   \<and> \<not> occurs confidence_at (str ''What a day'')
   \<and> (\<exists>r. extract_sentiment_data (str ''What a day'') = Inr r
          \<and> sentiment r = str ''unknown'' \<and> confidence r = str ''0%'')"
proof -
  have a: "\<not> occurs sentiment_line_at (str ''What a day'')"
    by (simp add: sentiment_line_at_def str_def ignorecase_eq_def ascii_lower_def ascii_upper_def)
  have b: "\<not> occurs confidence_at (str ''What a day'')"
    by (simp add: confidence_at_def str_def ignorecase_eq_def ascii_lower_def ascii_upper_def)
  from a b no_sentiment_line_unknown[OF a] show ?thesis by blast
qed

text \<open>Evaluation of the searches on given texts.\<close>

lemmas ev = str_def one_char_def lit_ok_def dot_ok_def ignorecase_eq_def ascii_lower_def ascii_upper_def
  isdigit_def digit_zeros_def at_end_def Plus_def isspace_def whitespace_def strip_def lower_def lower_char_def
  endswith_def split1_def and_then_def group1_def default_result_def matches.simps

subsection \<open>A bare number after Confidence\<close>















subsection \<open>What holds of every text\<close>

lemma search_Some_drop:
  "search r input fl = Some m \<Longrightarrow>
   \<exists>k st'. st' \<in> set (matches fl r (drop k input, Map.empty)) \<and> m = snd st'"
proof (induction input)
  case Nil
  then obtain st rest where a: "matches fl r ([], Map.empty) = st # rest" and b: "m = snd st"
    by (auto split: list.splits)
  then have "st \<in> set (matches fl r (drop 0 [], Map.empty))" by simp
  with b show ?case by blast
next
  case (Cons c cs)
  show ?case
  proof (cases "matches fl r (c # cs, Map.empty)")
    case Nil
    with Cons.prems have "search r cs fl = Some m" by simp
    from Cons.IH[OF this] obtain k st' where
      "st' \<in> set (matches fl r (drop k cs, Map.empty))" and "m = snd st'" by blast
    then have "st' \<in> set (matches fl r (drop (Suc k) (c # cs), Map.empty)) \<and> m = snd st'"
      by simp
    then show ?thesis by blast
  next
    case (Cons st rest)
    with Cons.prems have "m = snd st" by simp
    moreover from Cons have "st \<in> set (matches fl r (drop 0 (c # cs), Map.empty))" by simp
    ultimately show ?thesis by blast
  qed
qed

lemma ignorecase_ascii_letter:
  assumes "ignorecase_eq p c" and "97 \<le> p" and "p \<le> 122" and "c < 128"
  shows "lower_char c = [p]"
  using assms
  by (auto simp: ignorecase_eq_def lower_char_def ascii_lower_def ascii_upper_def split: if_splits)

lemma lower_label:
  "starts_with_ci w t \<Longrightarrow> list_all (\<lambda>p. 97 \<le> p \<and> p \<le> 122) w \<Longrightarrow>
   list_all (\<lambda>c. c < 128) t \<Longrightarrow> lower (take (length w) t) = w"
proof (induction w t rule: starts_with_ci.induct)
  case (1 s)
  show ?case by (simp add: lower_def)
next
  case (2 p ps)
  then show ?case by simp
next
  case (3 p ps c cs)
  from "3.prems" have "lower_char c = [p]"
    by (intro ignorecase_ascii_letter) simp_all
  moreover from 3 have "lower (take (length ps) cs) = ps" by simp
  ultimately show ?case by (simp add: lower_def)
qed

lemma label_ends_cases:
  "w \<in> set (label_ends t) \<Longrightarrow>
   starts_with_ci w t \<and> (w = str ''positive'' \<or> w = str ''negative'' \<or> w = str ''neutral'')"
  by (auto simp: label_ends_def split: if_splits)

lemma label_letters:
  "w = str ''positive'' \<or> w = str ''negative'' \<or> w = str ''neutral'' \<Longrightarrow>
   list_all (\<lambda>p. 97 \<le> p \<and> p \<le> 122) w"
  by (auto simp: str_def)

text \<open>
  On a text of ASCII characters the sentiment is one of the four values.
\<close>

lemma sentiment_of_ascii_text:
  assumes "list_all (\<lambda>c. c < 128) input" and "extract_sentiment_data input = Inr r"
  shows "sentiment r = str ''positive'' \<or> sentiment r = str ''negative''
       \<or> sentiment r = str ''neutral'' \<or> sentiment r = str ''unknown''"
proof -
  obtain r1 r2 r3 r4 where
    1: "extract_sentiment input default_result = Inr r1" and
    5: "extract_sentiment_data input = Inr r4" and
    s: "sentiment r4 = sentiment r1"
    by (rule extract_sentiment_data_steps)
  from 5 assms(2) have r: "r = r4" by simp
  show ?thesis
  proof (cases "search sentiment_re input [IGNORECASE]")
    case None
    with 1 have "r1 = default_result" by (simp add: extract_sentiment_def)
    with s r show ?thesis by (simp add: default_result_def)
  next
    case (Some m)
    from search_Some_drop[OF Some] obtain k st' where
      st': "st' \<in> set (matches [IGNORECASE] sentiment_re (drop k input, Map.empty))"
      and m: "m = snd st'" by blast
    define t where "t = skip_spaces (drop 18 (drop k input))"
    from st' obtain w where w: "w \<in> set (label_ends t)"
      and g: "snd st' = [1 \<mapsto> take (length w) t]"
      by (auto simp: matches_sentiment_re matches_labels t_def split: if_splits)
    from label_ends_cases[OF w] have sw: "starts_with_ci w t"
      and lab: "w = str ''positive'' \<or> w = str ''negative'' \<or> w = str ''neutral''" by simp_all
    have "set t \<subseteq> set input"
      unfolding t_def skip_spaces_def
      by (meson set_dropWhileD set_drop_subset subsetI subset_trans in_mono)
    with assms(1) have "list_all (\<lambda>c. c < 128) t" by (auto simp: list_all_iff)
    from lower_label[OF sw label_letters[OF lab] this] have "lower (take (length w) t) = w" .
    with 1 Some m g have "sentiment r1 = w"
      by (auto simp: extract_sentiment_def and_then_def group1_def)
    with s r lab show ?thesis by auto
  qed
qed

text \<open>
  A field whose pattern matches nowhere has its default.
\<close>

lemma defaults_when_no_match:
  assumes "extract_sentiment_data input = Inr r"
  shows "(search sentiment_re input [IGNORECASE] = None \<longrightarrow> sentiment r = str ''unknown'')
       \<and> (search confidence_re input [IGNORECASE] = None \<longrightarrow> confidence r = str ''0%'')
       \<and> (search markers_re input [IGNORECASE, DOTALL] = None \<longrightarrow> key_markers r = [])
       \<and> (search analysis_re input [IGNORECASE, DOTALL] = None \<longrightarrow>
            analysis r = str ''No analysis available'')"
proof -
  obtain r1 r2 r3 r4 where
    1: "extract_sentiment input default_result = Inr r1" and
    2: "extract_confidence input r1 = Inr r2" and
    3: "extract_markers input r2 = Inr r3" and
    4: "extract_analysis input r3 = Inr r4" and
    5: "extract_sentiment_data input = Inr r4"
    by (rule extract_sentiment_data_steps)
  from 5 assms have r: "r = r4" by simp
  have d: "confidence default_result = str ''0%''" "key_markers default_result = []"
    "analysis default_result = str ''No analysis available''"
    by (simp_all add: default_result_def)
  note f = extract_sentiment_fields[OF 1] extract_confidence_fields[OF 2]
    extract_markers_fields[OF 3] extract_analysis_fields[OF 4] d
  have "sentiment r4 = str ''unknown''" if "search sentiment_re input [IGNORECASE] = None"
  proof -
    from that 1 have "r1 = default_result" by (simp add: extract_sentiment_def)
    with f show ?thesis by (simp add: default_result_def)
  qed
  moreover have "confidence r4 = str ''0%''" if "search confidence_re input [IGNORECASE] = None"
  proof -
    from that 2 have "r2 = r1" by (simp add: extract_confidence_def)
    with f show ?thesis by (simp add: default_result_def)
  qed
  moreover have "key_markers r4 = []" if "search markers_re input [IGNORECASE, DOTALL] = None"
  proof -
    from that 3 have "r3 = r2" by (simp add: extract_markers_def)
    with f show ?thesis by (simp add: default_result_def)
  qed
  moreover have "analysis r4 = str ''No analysis available''"
    if "search analysis_re input [IGNORECASE, DOTALL] = None"
  proof -
    from that 4 have "r4 = r3" by (simp add: extract_analysis_def)
    with f show ?thesis by (simp add: default_result_def)
  qed
  ultimately show ?thesis using r by blast
qed

subsection \<open>The loop over bullet lines\<close>

text \<open>
  The loop itself keeps one marker for each line with a \<open>-\<close> whose text after the first
  \<open>-\<close> is not blank, in the order of the lines.
\<close>

lemma bullet_markers_list:
  "bullet_markers lines acc =
     Inr (acc @ filter (\<lambda>m. m \<noteq> []) (map after_dash (filter (\<lambda>line. 45 \<in> set line) lines)))"
  by (induction lines arbitrary: acc) (simp_all add: split1_def after_dash_def Let_def)

subsection \<open>The extraction on given texts\<close>

lemma reply_example_searches:
  "search sentiment_re reply_example [IGNORECASE] = Some [1 \<mapsto> str ''positive'']"
  "search confidence_re reply_example [IGNORECASE] = Some [1 \<mapsto> str ''90%'']"
  "search markers_re reply_example [IGNORECASE, DOTALL]
     = Some [1 \<mapsto> str ''happy, excited\<newline>Analysis: upbeat'']"
  "search analysis_re reply_example [IGNORECASE, DOTALL] = Some [1 \<mapsto> str ''upbeat'']"
  by (simp_all add: reply_example_def ev sentiment_re_def confidence_re_def markers_re_def
        analysis_re_def)

lemma bullets_example_searches:
  "search sentiment_re bullets_example [IGNORECASE] = None"
  "search confidence_re bullets_example [IGNORECASE] = None"
  "search markers_re bullets_example [IGNORECASE, DOTALL] = Some [1 \<mapsto> []]"
  "search analysis_re bullets_example [IGNORECASE, DOTALL] = None"
  by (simp_all add: bullets_example_def ev sentiment_re_def confidence_re_def markers_re_def
        analysis_re_def)

lemma long_s_example_searches:
  "search sentiment_re long_s_example [IGNORECASE] = Some [1 \<mapsto> str ''po'' @ [383] @ str ''itive'']"
  "search confidence_re long_s_example [IGNORECASE] = None"
  "search markers_re long_s_example [IGNORECASE, DOTALL] = None"
  "search analysis_re long_s_example [IGNORECASE, DOTALL] = None"
  by (simp_all add: long_s_example_def ev sentiment_re_def confidence_re_def markers_re_def
        analysis_re_def)

lemma confidence_only_example_searches:
  "search sentiment_re confidence_only_example [IGNORECASE] = None"
  "search confidence_re confidence_only_example [IGNORECASE] = Some [1 \<mapsto> str ''90%'']"
  "search markers_re confidence_only_example [IGNORECASE, DOTALL] = None"
  "search analysis_re confidence_only_example [IGNORECASE, DOTALL] = None"
  by (simp_all add: confidence_only_example_def ev sentiment_re_def confidence_re_def markers_re_def
        analysis_re_def)

lemmas extract_defs = extract_sentiment_data_def extract_sentiment_def extract_confidence_def
  extract_markers_def extract_analysis_def

lemmas record_ev = and_then_def group1_def default_result_def endswith_def str_def
  parse_markers_def strip_def isspace_def whitespace_def lower_def lower_char_def ascii_lower_def
  split1_def

text \<open>
  C3, as stated, fails: a text with a confidence and no sentiment line keeps the
  confidence it states.
\<close>

theorem confidence_without_sentiment_line:
  "\<not> occurs sentiment_line_at (str ''Confidence: 90%'')
   \<and> extract_sentiment_data (str ''Confidence: 90%'')
       = Inr \<lparr>sentiment = str ''unknown'', confidence = str ''90%'', key_markers = [],
              analysis = str ''No analysis available''\<rparr>
   \<and> str ''90%'' \<noteq> str ''0%''"
proof (intro conjI)
  show "\<not> occurs sentiment_line_at (str ''Confidence: 90%'')"
    by (simp add: sentiment_line_at_def str_def ignorecase_eq_def ascii_lower_def ascii_upper_def)
  show "extract_sentiment_data (str ''Confidence: 90%'')
       = Inr \<lparr>sentiment = str ''unknown'', confidence = str ''90%'', key_markers = [],
              analysis = str ''No analysis available''\<rparr>"
    unfolding confidence_only_example_def[symmetric] extract_defs confidence_only_example_searches
    by (simp add: record_ev)
  show "str ''90%'' \<noteq> str ''0%''" by (simp add: str_def)
qed

text \<open>
  C2: what the extraction returns on the reply of the specification. The sentiment,
  the confidence and the analysis are as the claim says; the markers are not: the
  capture after \<open>Key Markers:\<close> ends only at a blank line, at a line that starts with
  \<open>-\<close>, or at the end of the text, so it runs on through the \<open>Analysis\<close> line.
\<close>

theorem reply_example_extraction:
  "extract_sentiment_data (str ''Overall Sentiment: positive\<newline>Confidence: 90%\<newline>Key Markers: happy, excited\<newline>Analysis: upbeat'')
     = Inr \<lparr>sentiment = str ''positive'', confidence = str ''90%'',
            key_markers = [str ''happy'', str ''excited\<newline>Analysis: upbeat''],
            analysis = str ''upbeat''\<rparr>"
  unfolding reply_example_def[symmetric] extract_defs reply_example_searches
  by (simp add: record_ev)

text \<open>
  C4: a bullet list under \<open>Key Markers:\<close>. The capture ends before the first line
  that starts with \<open>-\<close>, so it is empty and no marker is returned.
\<close>

theorem bullets_example_extraction:
  "extract_sentiment_data (str ''Key Markers:\<newline>- happy\<newline>- excited'')
     = Inr \<lparr>sentiment = str ''unknown'', confidence = str ''0%'', key_markers = [],
            analysis = str ''No analysis available''\<rparr>"
  unfolding bullets_example_def[symmetric] extract_defs bullets_example_searches
  by (simp add: record_ev)

text \<open>
  C7: a reply that writes the label with U+017F (long s). \<open>re.IGNORECASE\<close> takes it
  for \<open>s\<close>, \<open>lower()\<close> leaves it, and the sentiment returned is none of the four
  values. The rest of the claim holds of every text: the extraction never raises
  (\<open>extract_sentiment_data_total\<close>), a field whose pattern does not match has its
  default (\<open>defaults_when_no_match\<close>), and on ASCII text the sentiment is one of the
  four values (\<open>sentiment_of_ascii_text\<close>).
\<close>

theorem long_s_example_extraction:
  "extract_sentiment_data (str ''Overall Sentiment: po'' @ [383] @ str ''itive'')
     = Inr \<lparr>sentiment = str ''po'' @ [383] @ str ''itive'', confidence = str ''0%'',
            key_markers = [], analysis = str ''No analysis available''\<rparr>
   \<and> str ''po'' @ [383] @ str ''itive'' \<noteq> str ''positive''
   \<and> str ''po'' @ [383] @ str ''itive'' \<noteq> str ''negative''
   \<and> str ''po'' @ [383] @ str ''itive'' \<noteq> str ''neutral''
   \<and> str ''po'' @ [383] @ str ''itive'' \<noteq> str ''unknown''"
proof -
  have "extract_sentiment_data long_s_example
     = Inr \<lparr>sentiment = str ''po'' @ [383] @ str ''itive'', confidence = str ''0%'',
            key_markers = [], analysis = str ''No analysis available''\<rparr>"
    unfolding extract_defs long_s_example_searches by (simp add: record_ev)
  then show ?thesis by (simp add: long_s_example_def str_def)
qed

section \<open>Properties of process\_task\<close>

subsection \<open>The event loop\<close>

lemma consume_raised:
  "raised evs = Some e \<Longrightarrow> consume evs acc = Inl e"
proof (induction evs arbitrary: acc)
  case Stop
  then show ?case by simp
next
  case (Yield ev rest)
  obtain fm raw sd where acc: "acc = (fm, raw, sd)" by (cases acc) auto
  show ?case
  proof (cases "final_text ev")
    case None
    with Yield acc show ?thesis by simp
  next
    case (Some t)
    obtain sd' where "extract_sentiment_data t = Inr sd'"
      using extract_sentiment_data_total by blast
    with Some Yield acc show ?thesis by (simp add: and_then_def)
  qed
next
  case (Raise x)
  then show ?case by simp
qed

lemma consume_no_final:
  "raised evs = None \<Longrightarrow> list_all (\<lambda>ev. final_text ev = None) (yielded evs)
   \<Longrightarrow> consume evs (fm, raw, sd) = Inr (fm, raw @ yielded evs, sd)"
  by (induction evs arbitrary: raw) auto

lemma fst_process_task:
  "fst (process_task tm w msg ctx session_id) =
     (case consume (run_async w (user_id_of ctx) (session_id_of w session_id) msg)
             (str ''(No response generated)'', [], default_result) of
        Inr (final_message, raw_events, sd) \<Rightarrow>
          Inr \<lparr>message = final_message, status = str ''success'',
                data = [(''sentiment_analysis'', Sentiment sd),
                        (''raw_events'', Events (last3 raw_events))]\<rparr>
      | Inl e \<Rightarrow>
          if is_Exception e
          then Inr \<lparr>message = str ''Error processing your request: '' @ exn_str e,
                     status = str ''error'',
                     data = [(''error_type'', Str (class_name e))]\<rparr>
          else Inl e)"
  by (simp add: process_task_def Let_def split: sum.splits prod.splits)


text \<open>
  C1, as amended. If the runner raises, while \<open>process_task\<close> calls it and consumes its
  events, an exception whose class derives from \<open>Exception\<close>, then \<open>process_task\<close>
  returns a response: its status is \<open>"error"\<close> and its data holds the class name of the
  exception under \<open>error_type\<close>.
\<close>

theorem process_task_error_response:
  assumes "raised (run_async w (user_id_of ctx) (session_id_of w session_id) msg) = Some e"
    and "is_Exception e"
  shows "\<exists>r. fst (process_task tm w msg ctx session_id) = Inr r
             \<and> status r = str ''error''
             \<and> map_of (data r) ''error_type'' = Some (Str (class_name e))"
  using consume_raised[OF assms(1)] assms(2)
  by (simp add: process_task_def Let_def)

theorem process_task_error_response_witness:
  "raised (run_async (raising_world RuntimeError) (user_id_of Map.empty)
       (session_id_of (raising_world RuntimeError) None) (str ''hello'')) = Some RuntimeError
   \<and> is_Exception RuntimeError
   \<and> (\<exists>r. fst (process_task no_sessions (raising_world RuntimeError) (str ''hello'') Map.empty None) = Inr r
         \<and> status r = str ''error''
         \<and> map_of (data r) ''error_type'' = Some (Str (class_name RuntimeError)))"
proof -
  have a: "raised (run_async (raising_world RuntimeError) (user_id_of Map.empty)
       (session_id_of (raising_world RuntimeError) None) (str ''hello'')) = Some RuntimeError"
    by (simp add: raising_world_def)
  have b: "is_Exception RuntimeError" by (simp add: RuntimeError_def)
  from a b process_task_error_response[OF a b, of no_sessions] show ?thesis by blast
qed

text \<open>
  C1, as stated, fails: \<open>KeyboardInterrupt\<close> does not derive from \<open>Exception\<close>, and
  \<open>except Exception\<close> lets it through to the caller.
\<close>

theorem process_task_lets_KeyboardInterrupt_through:
  "fst (process_task no_sessions (raising_world KeyboardInterrupt) (str ''hello'') Map.empty None)
     = Inl KeyboardInterrupt"
  by (simp add: process_task_def raising_world_def KeyboardInterrupt_def Let_def)

lemma final_text_None:
  assumes "\<not> (is_final_response ev \<and>
        (\<exists>c. event_content ev = Some c \<and> role c = Some (str ''model'') \<and>
           (\<exists>p ps t. parts c = Some (p # ps) \<and> part_text p = Some t \<and> t \<noteq> [])))"
  shows "final_text ev = None"
  using assms by (auto simp: final_text_def split: option.splits list.splits)

lemma process_task_lets_through:
  assumes "raised (run_async w (user_id_of ctx) (session_id_of w session_id) msg) = Some e"
    and "\<not> is_Exception e"
  shows "fst (process_task tm w msg ctx session_id) = Inl e"
  using consume_raised[OF assms(1)] assms(2) by (simp add: fst_process_task)

text \<open>
  C10. If the runner's event stream ends without raising and yields no event that is a
  final response with content of role \<open>"model"\<close> and a non-empty text in its first
  part, \<open>process_task\<close> returns status \<open>"success"\<close>, the message
  \<open>"(No response generated)"\<close> and, as \<open>sentiment_analysis\<close>, the record with sentiment
  \<open>"unknown"\<close>, confidence \<open>"0%"\<close>, no key markers and the analysis
  \<open>"No analysis available"\<close>; \<open>raw_events\<close> holds the last three events. Here \<open>u\<close> and
  \<open>sid\<close> are the user and the session the runner is called with.
\<close>

theorem process_task_no_reply:
  assumes "u = (case ctx ''user_id'' of None \<Rightarrow> str ''default_a2a_user'' | Some v \<Rightarrow> v)"
    and "sid = (case session_id of None \<Rightarrow> uuid4 w | Some s \<Rightarrow> if s = [] then uuid4 w else s)"
    and "raised (run_async w u sid msg) = None"
    and "list_all
           (\<lambda>ev. \<not> (is_final_response ev \<and>
              (\<exists>c. event_content ev = Some c \<and> role c = Some (str ''model'') \<and>
                 (\<exists>p ps t. parts c = Some (p # ps) \<and> part_text p = Some t \<and> t \<noteq> []))))
           (yielded (run_async w u sid msg))"
    and "evs = yielded (run_async w u sid msg)"
  shows "fst (process_task tm w msg ctx session_id) =
           Inr \<lparr>message = str ''(No response generated)'', status = str ''success'',
                 data = [(''sentiment_analysis'',
                          Sentiment \<lparr>sentiment = str ''unknown'', confidence = str ''0%'',
                                      key_markers = [],
                                      analysis = str ''No analysis available''\<rparr>),
                         (''raw_events'', Events (drop (length evs - 3) evs))]\<rparr>"
proof -
  from assms(1,2) have us: "user_id_of ctx = u" "session_id_of w session_id = sid"
    by (simp_all add: user_id_of_def session_id_of_def)
  from assms(4) have "list_all (\<lambda>ev. final_text ev = None) (yielded (run_async w u sid msg))"
    using final_text_None by (auto simp: list_all_iff)
  from consume_no_final[OF assms(3) this] assms(5) show ?thesis
    by (simp add: fst_process_task us last3_def default_result_def)
qed

theorem process_task_no_reply_witness:
  "raised (run_async no_reply_world (str ''default_a2a_user'') (uuid4 no_reply_world) (str ''hello'')) = None
   \<and> list_all
         (\<lambda>ev. \<not> (is_final_response ev \<and>
            (\<exists>c. event_content ev = Some c \<and> role c = Some (str ''model'') \<and>
               (\<exists>p ps t. parts c = Some (p # ps) \<and> part_text p = Some t \<and> t \<noteq> []))))
         (yielded (run_async no_reply_world (str ''default_a2a_user'') (uuid4 no_reply_world) (str ''hello'')))
   \<and> fst (process_task no_sessions no_reply_world (str ''hello'') Map.empty None) =
         Inr \<lparr>message = str ''(No response generated)'', status = str ''success'',
               data = [(''sentiment_analysis'',
                        Sentiment \<lparr>sentiment = str ''unknown'', confidence = str ''0%'',
                                    key_markers = [],
                                    analysis = str ''No analysis available''\<rparr>),
                       (''raw_events'',
                        Events [partial_event, user_final_event, empty_final_event])]\<rparr>"
proof -
  let ?evs = "run_async no_reply_world (str ''default_a2a_user'') (uuid4 no_reply_world) (str ''hello'')"
  have r: "?evs = Yield partial_event (Yield user_final_event (Yield empty_final_event Stop))"
    by (simp add: no_reply_world_def)
  have u: "str ''default_a2a_user''
      = (case Map.empty ''user_id'' of None \<Rightarrow> str ''default_a2a_user'' | Some v \<Rightarrow> v)"
    by simp
  have s: "uuid4 no_reply_world
      = (case None of None \<Rightarrow> uuid4 no_reply_world
         | Some s \<Rightarrow> if s = [] then uuid4 no_reply_world else s)"
    by simp
  have a: "raised ?evs = None" by (simp add: r)
  have b: "list_all
         (\<lambda>ev. \<not> (is_final_response ev \<and>
            (\<exists>c. event_content ev = Some c \<and> role c = Some (str ''model'') \<and>
               (\<exists>p ps t. parts c = Some (p # ps) \<and> part_text p = Some t \<and> t \<noteq> []))))
         (yielded ?evs)"
    unfolding r
    by (simp add: partial_event_def user_final_event_def empty_final_event_def str_def)
  have e: "yielded ?evs = yielded ?evs" by simp
  from a b process_task_no_reply[OF u s a b e, of no_sessions] show ?thesis
    by (simp add: r)
qed

subsection \<open>Sessions\<close>




section \<open>Properties of the dashboard\<close>

text \<open>
  C8. When the conversation has a session id and the HTTP exchange of the payload
  fails with a \<open>requests\<close> exception, \<open>send_message\<close> returns \<open>False\<close>; the chat history
  has gained the user's message (role \<open>user\<close>) and, after it, a message of role
  \<open>assistant\<close> that reports the error, and an error banner is shown.
\<close>

theorem send_message_request_exception:
  assumes "ss_session_id st \<noteq> []"
    and "post (JObj [(str ''message'', JStr msg),
                     (str ''context'', JObj [(str ''user_id'', JStr (ss_user_id st))]),
                     (str ''session_id'', JStr (ss_session_id st))]) = RequestException e"
  shows "send_message st post msg =
     (Inr False,
      st\<lparr>ss_messages := ss_messages st @
             [JObj [(str ''role'', JStr (str ''user'')), (str ''content'', JStr msg)],
              JObj [(str ''role'', JStr (str ''assistant'')),
                    (str ''content'', JStr (str ''Error: Could not connect to agent. '' @ e))]],
         banners := banners st @ [str ''Network or HTTP error: '' @ e]\<rparr>)"
  using assms
  by (simp add: send_message_def Let_def append_message_def st_error_def chat_def payload_of_def)

theorem send_message_request_exception_witness:
  "ss_session_id example_app \<noteq> []
   \<and> send_message example_app (\<lambda>p. RequestException (str ''timed out'')) (str ''hi'') =
     (Inr False,
      example_app\<lparr>ss_messages :=
             [JObj [(str ''role'', JStr (str ''user'')), (str ''content'', JStr (str ''hi''))],
              JObj [(str ''role'', JStr (str ''assistant'')),
                    (str ''content'',
                     JStr (str ''Error: Could not connect to agent. '' @ str ''timed out''))]],
         banners := [str ''Network or HTTP error: '' @ str ''timed out'']\<rparr>)"
proof -
  have a: "ss_session_id example_app \<noteq> []" by (simp add: example_app_def str_def)
  have b: "(\<lambda>p. RequestException (str ''timed out''))
             (JObj [(str ''message'', JStr (str ''hi'')),
                    (str ''context'', JObj [(str ''user_id'', JStr (ss_user_id example_app))]),
                    (str ''session_id'', JStr (ss_session_id example_app))])
           = RequestException (str ''timed out'')"
    by simp
  have c: "ss_messages example_app = []" "banners example_app = []"
    by (simp_all add: example_app_def)
  from a send_message_request_exception[OF a b] c show ?thesis by simp
qed

section \<open>Properties of the server's port\<close>

lemma ascii_digit_facts:
  assumes "48 \<le> c" and "c \<le> 57"
  shows "isdigit c" and "digit_value c = c - 48" and "\<not> int_space c"
  using assms
  by (simp_all add: isdigit_def digit_value_def digit_zeros_def int_space_def isspace_def
        whitespace_def)

lemma digits_from_decimal:
  "list_all (\<lambda>c. 48 \<le> c \<and> c \<le> 57) s \<Longrightarrow>
   digits_from acc s = Some (foldl (\<lambda>a c. 10 * a + (c - 48)) acc s)"
  by (induction s arbitrary: acc) (simp_all add: ascii_digit_facts)

lemma filter_isdigit_ascii:
  "list_all (\<lambda>c. 48 \<le> c \<and> c \<le> 57) s \<Longrightarrow> filter isdigit s = s"
  by (induction s) (simp_all add: ascii_digit_facts)

lemma int_strip_no_space:
  assumes "s \<noteq> []" and "\<not> int_space (hd s)" and "\<not> int_space (last s)"
  shows "int_strip s = s"
proof -
  from assms have "dropWhile int_space s = s" by (cases s) auto
  moreover from assms have "dropWhile int_space (rev s) = rev s"
    by (cases "rev s") (auto simp: last_rev[symmetric] simp del: last_rev)
  ultimately show ?thesis by (simp add: int_strip_def)
qed

lemma int_strip_ascii_digits:
  assumes "ascii_digits s"
  shows "int_strip s = s"
proof -
  from assms have ne: "s \<noteq> []" and all: "list_all (\<lambda>c. 48 \<le> c \<and> c \<le> 57) s"
    by (simp_all add: ascii_digits_def)
  from ne all have "48 \<le> hd s \<and> hd s \<le> 57" by (cases s) simp_all
  moreover from ne all have "48 \<le> last s \<and> last s \<le> 57"
    by (metis (mono_tags, lifting) last_in_set list_all_iff)
  ultimately show ?thesis using ne
    by (intro int_strip_no_space) (simp_all add: ascii_digit_facts)
qed

lemma digits_ascii:
  assumes "ascii_digits s"
  shows "digits s = (if length s > 4300 then None else Some (decimal s))"
proof -
  from assms obtain c cs where s: "s = c # cs"
    and all: "list_all (\<lambda>c. 48 \<le> c \<and> c \<le> 57) (c # cs)"
    by (cases s) (auto simp: ascii_digits_def)
  then have c: "48 \<le> c" "c \<le> 57" and cs: "list_all (\<lambda>c. 48 \<le> c \<and> c \<le> 57) cs" by simp_all
  have f: "filter isdigit (c # cs) = c # cs" by (rule filter_isdigit_ascii[OF all])
  have d: "digits_from (digit_value c) cs = Some (decimal (c # cs))"
    using digits_from_decimal[OF cs, of "c - 48"] c by (simp add: decimal_def ascii_digit_facts)
  show ?thesis
    unfolding s digits_def list.case f d
    by (simp add: ascii_digit_facts(1)[OF c] int_max_str_digits_def)
qed

lemma int_of_str_ascii_digits:
  assumes "ascii_digits s"
  shows "int_of_str s = (if length s > 4300 then Inl ValueError else Inr (int (decimal s)))"
proof -
  from assms obtain c cs where s: "s = c # cs" and c: "48 \<le> c" "c \<le> 57"
    by (cases s) (auto simp: ascii_digits_def)
  from int_strip_ascii_digits[OF assms] digits_ascii[OF assms] s c show ?thesis
    by (simp add: int_of_str_def)
qed

text \<open>
  C9, as amended. With \<open>SENTIMENT_ANALYZER_PORT\<close> unset, \<open>main\<close> starts the server with
  port 8004. With the variable set to a non-empty string of the digits \<open>0\<close> to \<open>9\<close>, of
  at most 4300 digits, that writes a port number (1 to 65535), \<open>main\<close> starts the
  server with that number as its port.
\<close>

theorem main_port:
  "(environ ''SENTIMENT_ANALYZER_PORT'' = None \<longrightarrow>
      main environ = Inr \<lparr>host = str ''0.0.0.0'', port = 8004, log_level = str ''info''\<rparr>)
   \<and> (\<forall>s. environ ''SENTIMENT_ANALYZER_PORT'' = Some s \<and> ascii_digits s
          \<and> length s \<le> 4300 \<and> 1 \<le> decimal s \<and> decimal s \<le> 65535 \<longrightarrow>
      main environ =
        Inr \<lparr>host = str ''0.0.0.0'', port = int (decimal s), log_level = str ''info''\<rparr>)"
  by (auto simp: main_def and_then_def DEFAULT_PORT_def int_of_str_ascii_digits)

theorem main_port_witness:
  "main Map.empty = Inr \<lparr>host = str ''0.0.0.0'', port = 8004, log_level = str ''info''\<rparr>
   \<and> ascii_digits (str ''9100'') \<and> length (str ''9100'') \<le> 4300
   \<and> 1 \<le> decimal (str ''9100'') \<and> decimal (str ''9100'') \<le> 65535
   \<and> main [''SENTIMENT_ANALYZER_PORT'' \<mapsto> str ''9100'']
       = Inr \<lparr>host = str ''0.0.0.0'', port = 9100, log_level = str ''info''\<rparr>"
proof -
  have d: "ascii_digits (str ''9100'')" by (simp add: ascii_digits_def str_def)
  have l: "length (str ''9100'') \<le> 4300" by (simp add: str_def)
  have v: "decimal (str ''9100'') = 9100" by (simp add: decimal_def str_def)
  from main_port[of Map.empty] main_port[of "[''SENTIMENT_ANALYZER_PORT'' \<mapsto> str ''9100'']"] d l v
  show ?thesis by simp
qed

text \<open>
  C9, as stated, fails: a string of 4301 digits is a decimal integer string, and with
  it \<open>int\<close> raises \<open>ValueError\<close>, so \<open>main\<close> ends before any server listens.
\<close>

theorem main_port_too_many_digits:
  "ascii_digits (49 # replicate 4300 49)
   \<and> main [''SENTIMENT_ANALYZER_PORT'' \<mapsto> 49 # replicate 4300 49] = Inl ValueError"
proof -
  have d: "ascii_digits (49 # replicate 4300 49)"
    by (simp add: ascii_digits_def list_all_iff)
  have "int_of_str (49 # replicate 4300 49) = Inl ValueError"
    by (simp add: int_of_str_ascii_digits[OF d])
  with d show ?thesis by (simp add: main_def and_then_def)
qed

end
